theory Spec2Isabelle
  imports Complex_Main "HOL-Library.Word" "HOL-Library.Sublist"
begin

unbundle bit_operations_syntax

section \<open>Values of the program\<close>

text \<open>
  A Python \<open>bytes\<close> object is a list of 8-bit words. A Python \<open>str\<close> is a \<open>string\<close>
  holding its UTF-8 form, so that \<open>x in topic\<close> on two strings is a test for a contiguous
  sublist. Python integers are unbounded: \<open>int\<close>, or \<open>nat\<close> for a position or a length
  that starts at a literal and only grows.
\<close>

type_synonym byte = "8 word"

datatype error =
    IndexError
  | TypeError
  | AttributeError
  | ValueError
  | UnicodeDecodeError
  | JSONDecodeError
  | TransportError
  | UpdateFailed

text \<open>\<open>packet[i]\<close> for a non-negative index: IndexError past the end.\<close>

definition byte_at :: "byte list \<Rightarrow> nat \<Rightarrow> error + byte" where
  "byte_at packet i = (if i < length packet then Inr (packet ! i) else Inl IndexError)"

section \<open>mqtt\_client.py: the remaining-length field\<close>

text \<open>
  \<open>_encode_mqtt_remaining_length\<close>: the \<open>while True\<close> loop, with \<open>encoded\<close> as the
  accumulator. Python's \<open>%\<close> and \<open>//\<close> round towards minus infinity, as \<open>mod\<close> and
  \<open>div\<close> on \<open>int\<close> do. On a negative \<open>length\<close> the quotient stays at \<open>-1\<close> and the
  loop never ends: the value is then \<open>None\<close>. The appended \<open>byte\<close> is below 256 in
  every iteration, so \<open>bytearray.append\<close> accepts it and \<open>word_of_int\<close> keeps its value.
\<close>

partial_function (option) encode_loop :: "int \<Rightarrow> byte list \<Rightarrow> byte list option" where
  "encode_loop n encoded =
     (let byte0 = n mod 128;
          n' = n div 128;
          byte1 = (if n' > 0 then byte0 OR 0x80 else byte0);
          encoded' = encoded @ [word_of_int byte1]
      in if n' = 0 then Some encoded' else encode_loop n' encoded')"

declare encode_loop.simps [code]

definition encode_mqtt_remaining_length :: "int \<Rightarrow> byte list option" where
  "encode_mqtt_remaining_length n = encode_loop n []"

text \<open>
  \<open>_parse_mqtt_remaining_length\<close>: the \<open>while\<close> loop with its three variables; the
  result is \<open>(remaining_length, pos)\<close>.
\<close>

function parse_loop ::
  "byte list \<Rightarrow> nat \<Rightarrow> nat \<Rightarrow> int \<Rightarrow> int \<Rightarrow> error + (int \<times> nat)" where
  "parse_loop packet start_pos pos remaining_length multiplier =
     (if pos < length packet \<and> pos < start_pos + 4 then
        (case byte_at packet pos of
           Inl e \<Rightarrow> Inl e
         | Inr b \<Rightarrow>
             let remaining_length' = remaining_length + uint (b AND 0x7F) * multiplier;
                 multiplier' = multiplier * 128;
                 pos' = pos + 1
             in if b AND 0x80 = 0 then Inr (remaining_length', pos')
                else parse_loop packet start_pos pos' remaining_length' multiplier')
      else Inr (remaining_length, pos))"
  by pat_completeness auto
termination
  by (relation "measure (\<lambda>(packet, start_pos, pos, r, m). start_pos + 4 - pos)") auto

declare parse_loop.simps [simp del]

definition parse_mqtt_remaining_length :: "byte list \<Rightarrow> nat \<Rightarrow> error + (int \<times> nat)" where
  "parse_mqtt_remaining_length packet start_pos = parse_loop packet start_pos start_pos 0 1"

section \<open>Library functions\<close>

text \<open>
  JSON values as \<open>json.loads\<close> returns them. An object is an association list in
  insertion order with distinct keys, as a Python \<open>dict\<close>. A finite float is its real
  value; the tests below only ask whether a float is zero.
\<close>

datatype json =
    JNull
  | JBool bool
  | JInt int
  | JFloat real
  | JString string
  | JArray "json list"
  | JObject "(string \<times> json) list"

type_synonym dict = "(string \<times> json) list"

text \<open>
  The functions of the Python library that the client calls are parameters of the model:
  \<open>bytes.decode("utf-8", errors="ignore")\<close>, \<open>bytes.decode("utf-8")\<close>,
  \<open>str.encode("utf-8")\<close>, \<open>json.loads\<close>, \<open>json.dumps\<close> with the compact separators,
  and \<open>int\<close> on a string.
\<close>

record pylib =
  decode_ignore :: "byte list \<Rightarrow> string"
  decode_strict :: "byte list \<Rightarrow> error + string"
  encode_utf8 :: "string \<Rightarrow> byte list"
  json_loads :: "string \<Rightarrow> error + json"
  json_dumps :: "json \<Rightarrow> string"
  int_of_str :: "string \<Rightarrow> error + int"

text \<open>Truth value of an object in a condition.\<close>

fun truthy :: "json \<Rightarrow> bool" where
  "truthy JNull = False"
| "truthy (JBool b) = b"
| "truthy (JInt i) = (i \<noteq> 0)"
| "truthy (JFloat r) = (r \<noteq> 0)"
| "truthy (JString s) = (s \<noteq> [])"
| "truthy (JArray xs) = (xs \<noteq> [])"
| "truthy (JObject kvs) = (kvs \<noteq> [])"

text \<open>\<open>d.get(key, default)\<close>: only a dict has the method.\<close>

fun py_get :: "json \<Rightarrow> string \<Rightarrow> json \<Rightarrow> error + json" where
  "py_get (JObject kvs) key dflt =
     Inr (case map_of kvs key of Some v \<Rightarrow> v | None \<Rightarrow> dflt)"
| "py_get _ key dflt = Inl AttributeError"

text \<open>\<open>key in x\<close> for a string \<open>key\<close>.\<close>

fun py_in :: "string \<Rightarrow> json \<Rightarrow> error + bool" where
  "py_in key (JObject kvs) = Inr (key \<in> set (map fst kvs))"
| "py_in key (JString s) = Inr (sublist key s)"
| "py_in key (JArray xs) = Inr (JString key \<in> set xs)"
| "py_in key _ = Inl TypeError"

text \<open>
  \<open>{**a, **b}\<close>: the entries of \<open>a\<close>, then each entry of \<open>b\<close> in order, replacing the
  value of a key already there and appending a new key.
\<close>

fun dict_set :: "string \<Rightarrow> json \<Rightarrow> dict \<Rightarrow> dict" where
  "dict_set k v [] = [(k, v)]"
| "dict_set k v (p # ps) = (if fst p = k then (k, v) # ps else p # dict_set k v ps)"

definition dict_merge :: "dict \<Rightarrow> dict \<Rightarrow> dict" where
  "dict_merge a b = fold (\<lambda>(k, v). dict_set k v) b a"

section \<open>mqtt\_client.py: frames\<close>

text \<open>
  \<open>_parse_mqtt_publish_packet\<close>. The pair \<open>(None, None)\<close> is \<open>None\<close>, a pair
  \<open>(topic, payload_bytes)\<close> is \<open>Some\<close>.
\<close>

definition parse_mqtt_publish_packet ::
  "'a pylib_scheme \<Rightarrow> byte list \<Rightarrow> error + (string \<times> byte list) option" where
  "parse_mqtt_publish_packet lib packet =
     (if length packet < 4 then Inr None
      else
        (case parse_mqtt_remaining_length packet 1 of
           Inl e \<Rightarrow> Inl e
         | Inr (remaining_length, pos) \<Rightarrow>
             if pos + 2 > length packet \<or> remaining_length = 0 then Inr None
             else
               (case byte_at packet pos of
                  Inl e \<Rightarrow> Inl e
                | Inr hi \<Rightarrow>
                    (case byte_at packet (pos + 1) of
                       Inl e \<Rightarrow> Inl e
                     | Inr lo \<Rightarrow>
                         let topic_length = push_bit 8 (unat hi) OR unat lo;
                             pos1 = pos + 2
                         in
                         if pos1 + topic_length > length packet then Inr None
                         else
                           let topic = decode_ignore lib (take topic_length (drop pos1 packet));
                               pos2 = pos1 + topic_length
                           in
                           (case byte_at packet 0 of
                              Inl e \<Rightarrow> Inl e
                            | Inr b0 \<Rightarrow>
                                let qos = drop_bit 1 (b0 AND 0x06) in
                                if qos \<ge> 1 \<and> pos2 + 2 > length packet then Inr None
                                else
                                  let pos3 = (if qos \<ge> 1 then pos2 + 2 else pos2);
                                      payload_length =
                                        remaining_length - 2 - int topic_length
                                          - (if qos \<ge> 1 then 2 else 0)
                                  in
                                  if payload_length < 0
                                      \<or> int pos3 + payload_length > int (length packet)
                                  then Inr (Some (topic, drop pos3 packet))
                                  else Inr (Some (topic,
                                         take (nat payload_length) (drop pos3 packet))))))))"

text \<open>
  \<open>bytes([...])\<close> raises ValueError unless every element is in \<open>range(256)\<close>.
\<close>

definition bytes_of_ints :: "int list \<Rightarrow> error + byte list" where
  "bytes_of_ints xs =
     (if list_all (\<lambda>x. 0 \<le> x \<and> x < 256) xs then Inr (map word_of_int xs)
      else Inl ValueError)"

text \<open>\<open>bytes([n >> 8, n & 0xFF])\<close>, the two-byte fields of the builders.\<close>

definition two_bytes :: "int \<Rightarrow> error + byte list" where
  "two_bytes n = bytes_of_ints [drop_bit 8 n, n AND 0xFF]"

text \<open>\<open>x.encode("utf-8")\<close>: only a \<open>str\<close> has the method.\<close>

fun str_encode :: "'a pylib_scheme \<Rightarrow> json \<Rightarrow> error + byte list" where
  "str_encode lib (JString s) = Inr (encode_utf8 lib s)"
| "str_encode lib _ = Inl AttributeError"

text \<open>
  The three builders. A builder returns \<open>None\<close> when the remaining-length loop does not
  return, \<open>Some (Inl e)\<close> when it raises, and \<open>Some (Inr packet)\<close> otherwise.
\<close>

definition build_mqtt_connect_packet ::
  "'a pylib_scheme \<Rightarrow> json \<Rightarrow> (error + byte list) option" where
  "build_mqtt_connect_packet lib client_id =
     (case str_encode lib client_id of
        Inl e \<Rightarrow> Some (Inl e)
      | Inr client_id_bytes \<Rightarrow>
          let protocol_name = [0x4D, 0x51, 0x54, 0x54];
              remaining_length =
                2 + int (length protocol_name) + 1 + 1 + 2 + 2 + int (length client_id_bytes)
          in
          (case encode_mqtt_remaining_length remaining_length of
             None \<Rightarrow> None
           | Some remaining_length_bytes \<Rightarrow>
               Some
                (let fixed_header = [0x10] @ remaining_length_bytes in
                 (case two_bytes (int (length protocol_name)) of
                    Inl e \<Rightarrow> Inl e
                  | Inr protocol_name_length \<Rightarrow>
                      let protocol_level = [0x04];
                          connect_flags = [0x02];
                          keep_alive = [0x00, 0x3C]
                      in
                      (case two_bytes (int (length client_id_bytes)) of
                         Inl e \<Rightarrow> Inl e
                       | Inr client_id_length \<Rightarrow>
                           Inr (fixed_header @ protocol_name_length @ protocol_name
                                 @ protocol_level @ connect_flags @ keep_alive
                                 @ client_id_length @ client_id_bytes))))))"

definition build_mqtt_subscribe_packet ::
  "'a pylib_scheme \<Rightarrow> string \<Rightarrow> int \<Rightarrow> (error + byte list) option" where
  "build_mqtt_subscribe_packet lib topic packet_id =
     (let topic_bytes = encode_utf8 lib topic;
          remaining_length = 2 + 2 + int (length topic_bytes) + 1
      in
      (case encode_mqtt_remaining_length remaining_length of
         None \<Rightarrow> None
       | Some remaining_length_bytes \<Rightarrow>
           Some
            (let fixed_header = [0x82] @ remaining_length_bytes in
             (case two_bytes packet_id of
                Inl e \<Rightarrow> Inl e
              | Inr packet_id_bytes \<Rightarrow>
                  (case two_bytes (int (length topic_bytes)) of
                     Inl e \<Rightarrow> Inl e
                   | Inr topic_length \<Rightarrow>
                       let qos = [0x01] in
                       Inr (fixed_header @ packet_id_bytes @ topic_length @ topic_bytes
                             @ qos))))))"

definition build_mqtt_publish_packet ::
  "'a pylib_scheme \<Rightarrow> string \<Rightarrow> json \<Rightarrow> int \<Rightarrow> (error + byte list) option" where
  "build_mqtt_publish_packet lib topic payload packet_id =
     (let payload_str = json_dumps lib payload;
          payload_bytes = encode_utf8 lib payload_str;
          topic_bytes = encode_utf8 lib topic;
          remaining_length = 2 + int (length topic_bytes) + 2 + int (length payload_bytes)
      in
      (case encode_mqtt_remaining_length remaining_length of
         None \<Rightarrow> None
       | Some remaining_length_bytes \<Rightarrow>
           Some
            (let fixed_header = [0x32] @ remaining_length_bytes in
             (case two_bytes (int (length topic_bytes)) of
                Inl e \<Rightarrow> Inl e
              | Inr topic_length \<Rightarrow>
                  (case two_bytes packet_id of
                     Inl e \<Rightarrow> Inl e
                   | Inr packet_id_bytes \<Rightarrow>
                       Inr (fixed_header @ topic_length @ topic_bytes @ packet_id_bytes
                             @ payload_bytes))))))"

text \<open>
  The packet identifier a frame carries when it is a PUBLISH frame of QoS 1 or more:
  the two bytes after the topic, which \<open>_build_mqtt_publish_packet\<close> writes from
  \<open>packet_id\<close> and \<open>_parse_mqtt_publish_packet\<close> steps over.
\<close>

definition publish_packet_id :: "byte list \<Rightarrow> nat option" where
  "publish_packet_id packet =
     (if packet \<noteq> [] \<and> drop_bit 4 (hd packet AND 0xF0) = 0x03
         \<and> drop_bit 1 (hd packet AND 0x06) \<ge> 1
      then
        (case parse_mqtt_remaining_length packet 1 of
           Inl e \<Rightarrow> None
         | Inr (remaining_length, pos) \<Rightarrow>
             if pos + 2 \<le> length packet then
               let topic_length = push_bit 8 (unat (packet ! pos)) OR unat (packet ! (pos + 1));
                   pos2 = pos + 2 + topic_length
               in if pos2 + 2 \<le> length packet
                  then Some (push_bit 8 (unat (packet ! pos2)) OR unat (packet ! (pos2 + 1)))
                  else None
             else None)
      else None)"

section \<open>mqtt\_client.py: inbound frames\<close>

text \<open>
  The body of the \<open>try\<close> in \<open>_handle_mqtt_packet\<close>. The callback is the callable the
  client was constructed with: it takes the reported fields and the state of its owner,
  and returns the new state or raises.
\<close>

definition handle_publish_payload ::
  "'a pylib_scheme \<Rightarrow> (json \<Rightarrow> 's \<Rightarrow> error + 's) \<Rightarrow> byte list \<Rightarrow> 's \<Rightarrow> error + 's" where
  "handle_publish_payload lib callback payload_bytes s =
     (case decode_strict lib payload_bytes of
        Inl e \<Rightarrow> Inl e
      | Inr payload_str \<Rightarrow>
     (case json_loads lib payload_str of
        Inl e \<Rightarrow> Inl e
      | Inr payload_data \<Rightarrow>
     (case py_get payload_data ''state'' (JObject []) of
        Inl e \<Rightarrow> Inl e
      | Inr state \<Rightarrow>
     (case py_get state ''reported'' (JObject []) of
        Inl e \<Rightarrow> Inl e
      | Inr reported \<Rightarrow>
          if truthy reported then callback reported s
          else
            (case py_in ''desired'' state of
               Inl e \<Rightarrow> Inl e
             | Inr _ \<Rightarrow> Inr s)))))"

text \<open>
  \<open>_handle_mqtt_packet\<close>. Logging has no effect on the state. \<open>except Exception\<close>
  around the payload handling turns every error of the body into a log line.
\<close>

definition handle_mqtt_packet ::
  "'a pylib_scheme \<Rightarrow> (json \<Rightarrow> 's \<Rightarrow> error + 's) \<Rightarrow> byte list \<Rightarrow> 's \<Rightarrow> error + 's" where
  "handle_mqtt_packet lib callback packet s =
     (if length packet < 2 then Inr s
      else
        (case byte_at packet 0 of
          Inl e \<Rightarrow> Inl e
        | Inr b0 \<Rightarrow>
            let packet_type = drop_bit 4 (b0 AND 0xF0) in
            if packet_type = 0x02 then
              (if length packet \<ge> 4 then
                 (case byte_at packet 3 of Inl e \<Rightarrow> Inl e | Inr connack_code \<Rightarrow> Inr s)
               else Inr s)
            else if packet_type = 0x09 then Inr s
            else if packet_type = 0x03 then
              (case parse_mqtt_publish_packet lib packet of
                 Inl e \<Rightarrow> Inl e
               | Inr None \<Rightarrow> Inr s
               | Inr (Some (topic, payload_bytes)) \<Rightarrow>
                   if topic \<noteq> [] \<and> payload_bytes \<noteq> [] then
                     (if sublist ''/shadow/get/accepted'' topic
                         \<or> sublist ''/shadow/update/accepted'' topic
                      then
                        (case handle_publish_payload lib callback payload_bytes s of
                           Inl err \<Rightarrow> Inr s
                         | Inr s' \<Rightarrow> Inr s')
                      else Inr s)
                   else Inr s)
            else Inr s))"

section \<open>mqtt\_client.py: the session\<close>

text \<open>
  The fields of \<open>DeermaMQTTClient\<close> that the modelled methods read or write. The
  websocket, when there is one, is the list of frames sent on it so far.
\<close>

record client =
  device_id :: string
  connected :: bool
  websocket :: "byte list list option"
  listening :: bool

text \<open>
  What one call meets outside the program: the dict \<open>_get_mqtt_config_from_api\<close>
  returns (\<open>{}\<close> after any failure), whether \<open>websockets.connect\<close> returns a
  connection, and whether the send of a frame succeeds, given how many frames the
  websocket has carried before.
\<close>

record env =
  mqtt_config :: json
  open_ok :: bool
  send_ok :: "nat \<Rightarrow> bool"

definition command_topic :: "'a client_scheme \<Rightarrow> string" where
  "command_topic c = ''$aws/things/'' @ device_id c @ ''/shadow/update''"

definition get_topic :: "'a client_scheme \<Rightarrow> string" where
  "get_topic c = ''$aws/things/'' @ device_id c @ ''/shadow/get''"

text \<open>\<open>await self._websocket.send(packet)\<close>.\<close>

definition ws_send :: "env \<Rightarrow> client \<Rightarrow> byte list \<Rightarrow> error + client" where
  "ws_send e c packet =
     (case websocket c of
        None \<Rightarrow> Inl AttributeError
      | Some sent \<Rightarrow>
          if send_ok e (length sent) then Inr (c\<lparr>websocket := Some (sent @ [packet])\<rparr>)
          else Inl TransportError)"

text \<open>\<open>_request_device_state\<close>: its own \<open>except\<close> swallows every error.\<close>

definition request_device_state :: "'a pylib_scheme \<Rightarrow> env \<Rightarrow> client \<Rightarrow> client option" where
  "request_device_state lib e c =
     (if connected c \<and> websocket c \<noteq> None then
        (case build_mqtt_publish_packet lib (get_topic c) (JObject []) 3 of
           None \<Rightarrow> None
         | Some (Inl err) \<Rightarrow> Some c
         | Some (Inr get_packet) \<Rightarrow>
             (case ws_send e c get_packet of
                Inl err \<Rightarrow> Some c
              | Inr c' \<Rightarrow> Some c'))
      else Some c)"

text \<open>
  The loop \<open>for i, topic in enumerate(subscribe_topics, 1)\<close> of \<open>connect\<close>.
\<close>

fun subscribe_loop ::
  "'a pylib_scheme \<Rightarrow> env \<Rightarrow> int \<Rightarrow> string list \<Rightarrow> client \<Rightarrow> (error + client) option" where
  "subscribe_loop lib e i [] c = Some (Inr c)"
| "subscribe_loop lib e i (topic # rest) c =
     (case build_mqtt_subscribe_packet lib topic i of
        None \<Rightarrow> None
      | Some (Inl err) \<Rightarrow> Some (Inl err)
      | Some (Inr subscribe_packet) \<Rightarrow>
          (case ws_send e c subscribe_packet of
             Inl err \<Rightarrow> Some (Inl err)
           | Inr c' \<Rightarrow> subscribe_loop lib e (i + 1) rest c'))"

text \<open>
  \<open>connect\<close>. \<open>connect_failed\<close> is its \<open>except\<close> branch. The log line that slices
  \<open>wss_url\<close> raises unless it is a string. The listening task that \<open>connect\<close> creates
  runs later and is not part of this call.
\<close>

definition connect_failed :: "client \<Rightarrow> bool \<times> client" where
  "connect_failed c = (False, c\<lparr>connected := False, websocket := None\<rparr>)"

definition connect :: "'a pylib_scheme \<Rightarrow> env \<Rightarrow> client \<Rightarrow> (bool \<times> client) option" where
  "connect lib e c =
     (if connected c then Some (True, c)
      else if truthy (mqtt_config e) then
        (case py_get (mqtt_config e) ''host'' JNull of
           Inl err \<Rightarrow> Some (connect_failed c)
         | Inr wss_url \<Rightarrow>
             if truthy wss_url then
               (case py_get (mqtt_config e) ''clientID'' JNull of
                  Inl err \<Rightarrow> Some (connect_failed c)
                | Inr cid \<Rightarrow>
                    let client_id = (if truthy cid then cid else JString (device_id c)) in
                    (case wss_url of
                       JString url \<Rightarrow>
                         if open_ok e then
                           let c1 = c\<lparr>websocket := Some [], connected := True\<rparr> in
                           (case build_mqtt_connect_packet lib client_id of
                              None \<Rightarrow> None
                            | Some (Inl err) \<Rightarrow> Some (connect_failed c1)
                            | Some (Inr connect_packet) \<Rightarrow>
                                (case ws_send e c1 connect_packet of
                                   Inl err \<Rightarrow> Some (connect_failed c1)
                                 | Inr c2 \<Rightarrow>
                                     (case subscribe_loop lib e 1
                                             [''$aws/things/'' @ device_id c2 @ ''/shadow/get/#'',
                                              ''$aws/things/'' @ device_id c2
                                                @ ''/shadow/update/accepted''] c2 of
                                        None \<Rightarrow> None
                                      | Some (Inl err) \<Rightarrow> Some (connect_failed c2)
                                      | Some (Inr c3) \<Rightarrow>
                                          (case request_device_state lib e c3 of
                                             None \<Rightarrow> None
                                           | Some c4 \<Rightarrow> Some (True, c4)))))
                         else Some (connect_failed c)
                     | _ \<Rightarrow> Some (connect_failed c)))
             else Some (False, c))
      else Some (False, c))"

definition ensure_connected ::
  "'a pylib_scheme \<Rightarrow> env \<Rightarrow> client \<Rightarrow> (bool \<times> client) option" where
  "ensure_connected lib e c =
     (if connected c then Some (connected c, c)
      else
        (case connect lib e c of
           None \<Rightarrow> None
         | Some (ok, c') \<Rightarrow> Some (connected c', c')))"

definition temp_mapping :: "(string \<times> int) list" where
  "temp_mapping =
     [(''0'', 0), (''1'', 1), (''2'', 2), (''3'', 3), (''4'', 4), (''5'', 5),
      (''6'', 6), (''7'', 7), (''8'', 8), (''9'', 9), (''10'', 10)]"

definition async_set_temperature ::
  "'a pylib_scheme \<Rightarrow> env \<Rightarrow> client \<Rightarrow> string \<Rightarrow> (bool \<times> client) option" where
  "async_set_temperature lib e c temp_code =
     (case ensure_connected lib e c of
        None \<Rightarrow> None
      | Some (ok, c1) \<Rightarrow>
          if ok then
            let target_temp = (case map_of temp_mapping temp_code of Some v \<Rightarrow> v | None \<Rightarrow> 0);
                payload =
                  JObject [(''state'', JObject [(''desired'', JObject
                    [(''SetTemp'', JInt target_temp),
                     (''CommandType'', JString ''app''),
                     (''EnduserId'', JString (device_id c1))])])]
            in
            (case build_mqtt_publish_packet lib (command_topic c1) payload 4 of
               None \<Rightarrow> None
             | Some (Inl err) \<Rightarrow> Some (False, c1)
             | Some (Inr publish_packet) \<Rightarrow>
                 (case ws_send e c1 publish_packet of
                    Inl err \<Rightarrow> Some (False, c1)
                  | Inr c2 \<Rightarrow> Some (True, c2)))
          else Some (False, c1))"

definition async_set_volume ::
  "'a pylib_scheme \<Rightarrow> env \<Rightarrow> client \<Rightarrow> string \<Rightarrow> (bool \<times> client) option" where
  "async_set_volume lib e c volume_code =
     (case ensure_connected lib e c of
        None \<Rightarrow> None
      | Some (ok, c1) \<Rightarrow>
          if ok then
            (case int_of_str lib volume_code of
               Inl err \<Rightarrow> Some (False, c1)
             | Inr target_volume \<Rightarrow>
                 let payload =
                       JObject [(''state'', JObject [(''desired'', JObject
                         [(''SetOutlet'', JInt target_volume),
                          (''CommandType'', JString ''app''),
                          (''EnduserId'', JString (device_id c1))])])]
                 in
                 (case build_mqtt_publish_packet lib (command_topic c1) payload 5 of
                    None \<Rightarrow> None
                  | Some (Inl err) \<Rightarrow> Some (False, c1)
                  | Some (Inr publish_packet) \<Rightarrow>
                      (case ws_send e c1 publish_packet of
                         Inl err \<Rightarrow> Some (False, c1)
                       | Inr c2 \<Rightarrow> Some (True, c2))))
          else Some (False, c1))"

text \<open>
  The \<open>finally\<close> block of \<open>_listen_messages\<close>: the loop over the four delays. \<open>envs k\<close>
  is what the \<open>k\<close>-th call of \<open>connect\<close> meets. The result lists the delays slept, in
  order.
\<close>

fun reconnect_loop ::
  "'a pylib_scheme \<Rightarrow> (nat \<Rightarrow> env) \<Rightarrow> nat \<Rightarrow> nat list \<Rightarrow> client \<Rightarrow> (nat list \<times> client) option"
  where
  "reconnect_loop lib envs k [] c = Some ([], c)"
| "reconnect_loop lib envs k (delay # rest) c =
     (if connected c then reconnect_loop lib envs k rest c
      else
        (case connect lib (envs k) c of
           None \<Rightarrow> None
         | Some (ok, c') \<Rightarrow>
             if ok then Some ([delay], c')
             else
               (case reconnect_loop lib envs (Suc k) rest c' of
                  None \<Rightarrow> None
                | Some (delays, c'') \<Rightarrow> Some (delay # delays, c''))))"

definition listen_messages_finally ::
  "'a pylib_scheme \<Rightarrow> (nat \<Rightarrow> env) \<Rightarrow> client \<Rightarrow> (nat list \<times> client) option" where
  "listen_messages_finally lib envs c =
     reconnect_loop lib envs 0 [5, 10, 15, 30] (c\<lparr>listening := False, connected := False\<rparr>)"

section \<open>coordinator.py\<close>

text \<open>
  \<open>DeermaWaterCoordinator\<close>: \<open>self.device_id\<close> and \<open>self.data\<close>, each \<open>None\<close> or a
  value.
\<close>

record coordinator =
  coordinator_device_id :: "string option"
  data :: "dict option"

text \<open>\<open>self.data or {}\<close>.\<close>

definition data_or_empty :: "coordinator \<Rightarrow> dict" where
  "data_or_empty co = (case data co of None \<Rightarrow> [] | Some d \<Rightarrow> d)"

text \<open>
  The \<open>try\<close> body of \<open>_async_update_data\<close>. \<open>water\<close> and \<open>status\<close> are what
  \<open>get_water_data\<close> and \<open>get_device_status\<close> do in this call: raise or return.
  \<open>**status\<close> raises unless \<open>status\<close> is a dict.
\<close>

definition update_data_body ::
  "coordinator \<Rightarrow> error + json \<Rightarrow> error + json \<Rightarrow> error + dict" where
  "update_data_body co water status =
     (case coordinator_device_id co of
        None \<Rightarrow> Inr (data_or_empty co)
      | Some dev \<Rightarrow>
          if dev = [] then Inr (data_or_empty co)
          else
            let existing_data = data_or_empty co;
                mqtt_data =
                  filter (\<lambda>(k, v). k \<notin> set [''water_data'', ''device_id'']) existing_data
            in
            (case water of
               Inl err \<Rightarrow> Inl err
             | Inr water_data \<Rightarrow>
                 (case status of
                    Inl err \<Rightarrow> Inl err
                  | Inr (JObject status_fields) \<Rightarrow>
                      Inr (dict_merge
                            (dict_merge
                              [(''water_data'', water_data), (''device_id'', JString dev)]
                              status_fields)
                            mqtt_data)
                  | Inr _ \<Rightarrow> Inl TypeError)))"

text \<open>\<open>_async_update_data\<close>: the body and its \<open>except Exception\<close>.\<close>

definition async_update_data ::
  "coordinator \<Rightarrow> error + json \<Rightarrow> error + json \<Rightarrow> error + dict" where
  "async_update_data co water status =
     (case update_data_body co water status of
        Inr d \<Rightarrow> Inr d
      | Inl err \<Rightarrow>
          (case data co of
             None \<Rightarrow> Inl UpdateFailed
           | Some d \<Rightarrow> if d \<noteq> [] then Inr d else Inl UpdateFailed))"

text \<open>
  A refresh of the framework's base class: it stores the dict \<open>_async_update_data\<close>
  returns as \<open>self.data\<close>; when the method raises, the failure is recorded and
  \<open>self.data\<close> keeps its value.
\<close>

definition refresh ::
  "coordinator \<Rightarrow> error + json \<Rightarrow> error + json \<Rightarrow> error option \<times> coordinator" where
  "refresh co water status =
     (case async_update_data co water status of
        Inr d \<Rightarrow> (None, co\<lparr>data := Some d\<rparr>)
      | Inl err \<Rightarrow> (Some err, co))"

text \<open>
  \<open>_mqtt_callback\<close>: \<open>**payload\<close> raises unless \<open>payload\<close> is a dict;
  \<open>async_set_updated_data\<close> stores the merged dict as \<open>self.data\<close>.
\<close>

definition mqtt_callback :: "json \<Rightarrow> coordinator \<Rightarrow> error + coordinator" where
  "mqtt_callback payload co =
     (case payload of
        JObject reported \<Rightarrow> Inr (co\<lparr>data := Some (dict_merge (data_or_empty co) reported)\<rparr>)
      | _ \<Rightarrow> Inl TypeError)"

section \<open>A library instance for concrete runs\<close>

text \<open>
  Stand-ins for the library functions, used where a frame or a document is evaluated.
  They agree with Python on the inputs used below: ASCII text, and documents made of
  \<open>null\<close>, booleans, integers, strings without escapes, arrays and objects.
\<close>

function decimal_nat :: "nat \<Rightarrow> string" where
  "decimal_nat n =
     (if n < 10 then [char_of (48 + n)]
      else decimal_nat (n div 10) @ [char_of (48 + n mod 10)])"
  by pat_completeness auto
termination
  by (relation "measure id") auto

definition decimal_int :: "int \<Rightarrow> string" where
  "decimal_int i = (if i < 0 then ''-'' @ decimal_nat (nat (- i)) else decimal_nat (nat i))"

fun join_comma :: "string list \<Rightarrow> string" where
  "join_comma [] = []"
| "join_comma [x] = x"
| "join_comma (x # y # zs) = x @ '','' @ join_comma (y # zs)"

fun plain_dumps :: "json \<Rightarrow> string" where
  "plain_dumps JNull = ''null''"
| "plain_dumps (JBool b) = (if b then ''true'' else ''false'')"
| "plain_dumps (JInt i) = decimal_int i"
| "plain_dumps (JFloat r) = ''NaN''"
| "plain_dumps (JString s) = [CHR 0x22] @ s @ [CHR 0x22]"
| "plain_dumps (JArray xs) = ''['' @ join_comma (map plain_dumps xs) @ '']''"
| "plain_dumps (JObject kvs) =
     ''{'' @ join_comma
              (map (\<lambda>(k, v). [CHR 0x22] @ k @ [CHR 0x22] @ '':'' @ plain_dumps v) kvs)
       @ ''}''"

fun digits_value :: "nat \<Rightarrow> string \<Rightarrow> nat option" where
  "digits_value acc [] = Some acc"
| "digits_value acc (ch # rest) =
     (let d = (of_char ch :: nat) in
      if 48 \<le> d \<and> d \<le> 57 then digits_value (10 * acc + (d - 48)) rest else None)"

definition plain_int :: "string \<Rightarrow> error + int" where
  "plain_int s =
     (if s = [] then Inl ValueError
      else
        (case digits_value 0 s of
           None \<Rightarrow> Inl ValueError
         | Some n \<Rightarrow> Inr (int n)))"

definition ascii_encode :: "string \<Rightarrow> byte list" where
  "ascii_encode s = map (\<lambda>ch. of_nat (of_char ch)) s"

definition ascii_decode_ignore :: "byte list \<Rightarrow> string" where
  "ascii_decode_ignore bs = map (\<lambda>b. char_of (unat b)) (filter (\<lambda>b. b < 0x80) bs)"

definition ascii_decode_strict :: "byte list \<Rightarrow> error + string" where
  "ascii_decode_strict bs =
     (if list_all (\<lambda>b. b < 0x80) bs then Inr (map (\<lambda>b. char_of (unat b)) bs)
      else Inl UnicodeDecodeError)"

text \<open>The documents the stand-in for \<open>json.loads\<close> reads back.\<close>

definition desired_only_document :: json where
  "desired_only_document =
     JObject [(''state'', JObject [(''desired'', JObject [(''SetTemp'', JInt 6)])])]"

definition reported_document :: json where
  "reported_document =
     JObject [(''state'', JObject [(''reported'', JObject [(''SetTemp'', JInt 6)])])]"

definition plain_loads :: "string \<Rightarrow> error + json" where
  "plain_loads s =
     (case find (\<lambda>d. plain_dumps d = s) [desired_only_document, reported_document] of
        None \<Rightarrow> Inl JSONDecodeError
      | Some d \<Rightarrow> Inr d)"

definition plain_lib :: pylib where
  "plain_lib =
     \<lparr>decode_ignore = ascii_decode_ignore,
      decode_strict = ascii_decode_strict,
      encode_utf8 = ascii_encode,
      json_loads = plain_loads,
      json_dumps = plain_dumps,
      int_of_str = plain_int\<rparr>"

text \<open>
  Inputs for the concrete runs: a callback that records what it is given, a QoS-0
  PUBLISH frame as the broker sends it (topic below 256 bytes, body below 128), three
  such frames, and a coordinator that holds two fields.
\<close>

definition recording_callback :: "json \<Rightarrow> json list \<Rightarrow> error + json list" where
  "recording_callback reported calls = Inr (calls @ [reported])"

definition inbound_publish :: "string \<Rightarrow> string \<Rightarrow> byte list" where
  "inbound_publish topic text =
     (let body = [0x00, of_nat (length topic)] @ ascii_encode topic @ ascii_encode text
      in [0x30, of_nat (length body)] @ body)"

definition desired_only_frame :: "byte list" where
  "desired_only_frame =
     inbound_publish ''$aws/things/dev/shadow/update/accepted''
       (plain_dumps desired_only_document)"

definition reported_frame :: "byte list" where
  "reported_frame =
     inbound_publish ''$aws/things/dev/shadow/update/accepted''
       (plain_dumps reported_document)"

definition malformed_json_frame :: "byte list" where
  "malformed_json_frame = inbound_publish ''$aws/things/dev/shadow/get/accepted'' ''{oops''"

definition sample_coordinator :: coordinator where
  "sample_coordinator =
     \<lparr>coordinator_device_id = Some ''dev'', data = Some [(''x'', JInt 1), (''y'', JInt 2)]\<rparr>"

section \<open>The remaining-length field\<close>

lemma parse_loop_bounds:
  "pos \<le> start_pos + 4 \<Longrightarrow>
   \<exists>v p. parse_loop packet start_pos pos r m = Inr (v, p) \<and> pos \<le> p \<and> p \<le> start_pos + 4
      \<and> p \<le> max pos (length packet)"
proof (induction packet start_pos pos r m rule: parse_loop.induct)
  case (1 packet start_pos pos r m)
  show ?case
  proof (cases "pos < length packet \<and> pos < start_pos + 4")
    case False
    then show ?thesis using "1.prems" by (subst parse_loop.simps) auto
  next
    case True
    then have b: "byte_at packet pos = Inr (packet ! pos)" by (simp add: byte_at_def)
    show ?thesis
    proof (cases "packet ! pos AND 0x80 = 0")
      case stop: True
      with True b show ?thesis
        by (subst parse_loop.simps) (simp add: Let_def)
    next
      case continue: False
      from "1.IH" [OF True b refl refl refl continue] True
      obtain v p where "parse_loop packet start_pos (pos + 1)
          (r + uint (packet ! pos AND 0x7F) * m) (m * 128) = Inr (v, p)"
          "pos + 1 \<le> p" "p \<le> start_pos + 4" "p \<le> max (pos + 1) (length packet)"
        by auto
      with continue True b show ?thesis
        by (subst parse_loop.simps) (auto simp add: Let_def)
    qed
  qed
qed

lemma parse_remaining_length_bounds:
  "\<exists>v p. parse_mqtt_remaining_length packet start_pos = Inr (v, p) \<and> start_pos \<le> p
      \<and> p \<le> start_pos + 4 \<and> p \<le> max start_pos (length packet)"
  unfolding parse_mqtt_remaining_length_def by (rule parse_loop_bounds) simp

lemma parse_loop_continue:
  "pos < length packet \<Longrightarrow> pos < start_pos + 4 \<Longrightarrow> packet ! pos AND 0x80 \<noteq> 0 \<Longrightarrow>
   parse_loop packet start_pos pos r m =
     parse_loop packet start_pos (Suc pos) (r + uint (packet ! pos AND 0x7F) * m) (m * 128)"
  by (subst parse_loop.simps) (simp add: byte_at_def Let_def)

lemma parse_loop_limit:
  "pos = start_pos + 4 \<Longrightarrow> parse_loop packet start_pos pos r m = Inr (r, start_pos + 4)"
  by (subst parse_loop.simps) simp

text \<open>
  C2. For each of 0, 1, 127, 128, 16383, 16384 and 2097151 the encoder returns, the
  decoder started at the first byte of the encoding returns the number and the offset
  behind the encoding, and the encoding has 1, 1, 1, 2, 2, 3 and 3 bytes.
\<close>

theorem remaining_length_roundtrip:
  "map (\<lambda>n. map_option (\<lambda>bs. (parse_mqtt_remaining_length bs 0, length bs))
               (encode_mqtt_remaining_length n))
     [0, 1, 127, 128, 16383, 16384, 2097151] =
   [Some (Inr (0, 1), 1), Some (Inr (1, 1), 1), Some (Inr (127, 1), 1),
    Some (Inr (128, 2), 2), Some (Inr (16383, 2), 2),
    Some (Inr (16384, 3), 3), Some (Inr (2097151, 3), 3)]"
  by code_simp

text \<open>
  C9, as the code has it. The decoder never raises and its next offset is at most four
  bytes behind its start. Four bytes that all carry the continuation bit are no error:
  the decoder returns the number made of their low seven bits and stops behind the
  fourth, whatever follows.
\<close>

theorem remaining_length_four_bytes:
  "(\<exists>v pos. parse_mqtt_remaining_length packet start_pos = Inr (v, pos)
       \<and> start_pos \<le> pos \<and> pos \<le> start_pos + 4)
   \<and> (b0 AND 0x80 \<noteq> 0 \<and> b1 AND 0x80 \<noteq> 0 \<and> b2 AND 0x80 \<noteq> 0 \<and> b3 AND 0x80 \<noteq> 0 \<longrightarrow>
        parse_mqtt_remaining_length (pre @ b0 # b1 # b2 # b3 # post) (length pre) =
          Inr (uint (b0 AND 0x7F) + uint (b1 AND 0x7F) * 128 + uint (b2 AND 0x7F) * 16384
                + uint (b3 AND 0x7F) * 2097152, length pre + 4))"
proof (intro conjI impI)
  show "\<exists>v pos. parse_mqtt_remaining_length packet start_pos = Inr (v, pos)
       \<and> start_pos \<le> pos \<and> pos \<le> start_pos + 4"
    using parse_remaining_length_bounds [of packet start_pos] by blast
next
  let ?packet = "pre @ b0 # b1 # b2 # b3 # post"
  let ?n = "length pre"
  assume bits: "b0 AND 0x80 \<noteq> 0 \<and> b1 AND 0x80 \<noteq> 0 \<and> b2 AND 0x80 \<noteq> 0 \<and> b3 AND 0x80 \<noteq> 0"
  have at: "?packet ! ?n = b0" "?packet ! Suc ?n = b1" "?packet ! Suc (Suc ?n) = b2"
    "?packet ! Suc (Suc (Suc ?n)) = b3"
    by (simp_all add: nth_append)
  have len: "Suc (Suc (Suc ?n)) < length ?packet" by simp
  have "parse_loop ?packet ?n ?n 0 1 = parse_loop ?packet ?n (Suc ?n) (uint (b0 AND 0x7F)) 128"
    using parse_loop_continue [of ?n ?packet ?n 0 1] bits at len by simp
  also have "\<dots> = parse_loop ?packet ?n (Suc (Suc ?n))
      (uint (b0 AND 0x7F) + uint (b1 AND 0x7F) * 128) 16384"
    using parse_loop_continue [of "Suc ?n" ?packet ?n] bits at len by simp
  also have "\<dots> = parse_loop ?packet ?n (Suc (Suc (Suc ?n)))
      (uint (b0 AND 0x7F) + uint (b1 AND 0x7F) * 128 + uint (b2 AND 0x7F) * 16384) 2097152"
    using parse_loop_continue [of "Suc (Suc ?n)" ?packet ?n] bits at len by simp
  also have "\<dots> = parse_loop ?packet ?n (Suc (Suc (Suc (Suc ?n))))
      (uint (b0 AND 0x7F) + uint (b1 AND 0x7F) * 128 + uint (b2 AND 0x7F) * 16384
        + uint (b3 AND 0x7F) * 2097152) 268435456"
    using parse_loop_continue [of "Suc (Suc (Suc ?n))" ?packet ?n] bits at len by simp
  finally show "parse_mqtt_remaining_length ?packet ?n =
      Inr (uint (b0 AND 0x7F) + uint (b1 AND 0x7F) * 128 + uint (b2 AND 0x7F) * 16384
                + uint (b3 AND 0x7F) * 2097152, ?n + 4)"
    by (simp add: parse_mqtt_remaining_length_def parse_loop_limit)
qed

theorem remaining_length_four_bytes_witness:
  "(0x81 :: byte) AND 0x80 \<noteq> 0 \<and> (0x82 :: byte) AND 0x80 \<noteq> 0
   \<and> (0x83 :: byte) AND 0x80 \<noteq> 0 \<and> (0x84 :: byte) AND 0x80 \<noteq> 0
   \<and> parse_mqtt_remaining_length [0x30, 0x81, 0x82, 0x83, 0x84, 0x05] 1 = Inr (8438017, 5)"
  using remaining_length_four_bytes
    [where ?b0.0 = "0x81" and ?b1.0 = "0x82" and ?b2.0 = "0x83" and ?b3.0 = "0x84"
       and pre = "[0x30]" and post = "[0x05]"]
  by simp

text \<open>
  C9, as stated, fails: on four continuation bytes followed by a fifth byte the decoder
  returns the value 268435455 and the offset 4, not an error.
\<close>

theorem remaining_length_fifth_byte_counterexample:
  "parse_mqtt_remaining_length [0xFF, 0xFF, 0xFF, 0xFF, 0x01] 0 = Inr (268435455, 4)"
  by (simp add: parse_mqtt_remaining_length_def parse_loop.simps byte_at_def)

section \<open>Inbound frames\<close>

lemma parse_publish_returns:
  "\<exists>r. parse_mqtt_publish_packet lib packet = Inr r"
proof -
  obtain rl pos where rl: "parse_mqtt_remaining_length packet 1 = Inr (rl, pos)"
    using parse_remaining_length_bounds [of packet 1] by blast
  show ?thesis
    unfolding parse_mqtt_publish_packet_def
    using rl by (simp add: byte_at_def Let_def)
qed

text \<open>
  C3, as the code has it. When the remaining length a PUBLISH frame declares is more than
  the bytes that follow the length field, the decoder does not reject the frame. It
  returns \<open>(None, None)\<close> when the topic or the packet identifier does not fit, and
  otherwise the topic together with every byte from the start of the payload to the end
  of the buffer.
\<close>

theorem publish_oversized_remaining_length:
  assumes rl: "parse_mqtt_remaining_length packet 1 = Inr (remaining_length, pos)"
    and over: "int (length packet) - int pos < remaining_length"
  shows "parse_mqtt_publish_packet lib packet = Inr None
    \<or> (let topic_length = push_bit 8 (unat (packet ! pos)) OR unat (packet ! (pos + 1));
            qos = drop_bit 1 (packet ! 0 AND 0x06);
            pos3 = pos + 2 + topic_length + (if qos \<ge> 1 then 2 else 0)
        in parse_mqtt_publish_packet lib packet =
             Inr (Some (decode_ignore lib (take topic_length (drop (pos + 2) packet)),
                        drop pos3 packet)))"
  using rl over unfolding parse_mqtt_publish_packet_def
  by (simp add: byte_at_def Let_def)

theorem publish_oversized_remaining_length_witness:
  "parse_mqtt_remaining_length [0x30, 0x0A, 0x00, 0x01, 0x74, 0x41] 1 = Inr (10, 2)
   \<and> int (length [0x30, 0x0A, 0x00, 0x01, 0x74, 0x41 :: byte]) - int 2 < 10
   \<and> (parse_mqtt_publish_packet plain_lib [0x30, 0x0A, 0x00, 0x01, 0x74, 0x41] = Inr None
        \<or> parse_mqtt_publish_packet plain_lib [0x30, 0x0A, 0x00, 0x01, 0x74, 0x41] =
             Inr (Some (decode_ignore plain_lib [0x74], [0x41])))"
proof -
  have h1: "parse_mqtt_remaining_length [0x30, 0x0A, 0x00, 0x01, 0x74, 0x41] 1 = Inr (10, 2)"
    by code_simp
  have h2: "int (length [0x30, 0x0A, 0x00, 0x01, 0x74, 0x41 :: byte]) - int 2 < 10"
    by simp
  from publish_oversized_remaining_length [OF h1 h2, of plain_lib]
  have "parse_mqtt_publish_packet plain_lib [0x30, 0x0A, 0x00, 0x01, 0x74, 0x41] = Inr None
        \<or> parse_mqtt_publish_packet plain_lib [0x30, 0x0A, 0x00, 0x01, 0x74, 0x41] =
             Inr (Some (decode_ignore plain_lib [0x74], [0x41]))"
    by (simp add: Let_def)
  with h1 h2 show ?thesis by (intro conjI)
qed

text \<open>
  C3, as stated, fails: a QoS-0 frame that declares ten bytes and has four decodes to
  the topic \<open>t\<close> and the one payload byte that is there, with no error.
\<close>

theorem publish_oversized_counterexample:
  "parse_mqtt_publish_packet plain_lib [0x30, 0x0A, 0x00, 0x01, 0x74, 0x41] =
     Inr (Some (''t'', [0x41]))"
  by code_simp

text \<open>
  C10. For every byte sequence, library and callback the handler returns and does not
  raise, and so does the PUBLISH decoder. A frame of fewer than two bytes leaves the
  state as it is. When the topic length field, the topic or the packet identifier of a
  PUBLISH frame runs past the end of the buffer, the decoder returns \<open>(None, None)\<close>,
  and after \<open>(None, None)\<close> the handler leaves the state as it is for every callback, so
  it has called none. When the handling of the payload raises (the strict decoding, the
  JSON parser, a lookup or the callback), the handler still returns, with the state as
  it was.
\<close>

theorem handle_mqtt_packet_total:
  "(\<exists>s'. handle_mqtt_packet lib callback packet s = Inr s')
   \<and> (\<exists>r. parse_mqtt_publish_packet lib packet = Inr r)
   \<and> (length packet < 2 \<longrightarrow> handle_mqtt_packet lib callback packet s = Inr s)
   \<and> (parse_mqtt_remaining_length packet 1 = Inr (remaining_length, pos)
        \<and> (let topic_length = push_bit 8 (unat (packet ! pos)) OR unat (packet ! (pos + 1));
                qos = drop_bit 1 (packet ! 0 AND 0x06)
            in length packet < pos + 2 \<or> length packet < pos + 2 + topic_length
                 \<or> (1 \<le> qos \<and> length packet < pos + 2 + topic_length + 2))
        \<longrightarrow> parse_mqtt_publish_packet lib packet = Inr None)
   \<and> (parse_mqtt_publish_packet lib packet = Inr None
        \<longrightarrow> handle_mqtt_packet lib callback packet s = Inr s)
   \<and> (parse_mqtt_publish_packet lib packet = Inr (Some (topic, payload_bytes))
        \<and> handle_publish_payload lib callback payload_bytes s = Inl err
        \<longrightarrow> handle_mqtt_packet lib callback packet s = Inr s)"
proof (intro conjI impI)
  obtain r where r: "parse_mqtt_publish_packet lib packet = Inr r"
    using parse_publish_returns by blast
  then show "\<exists>r. parse_mqtt_publish_packet lib packet = Inr r" ..
  show "\<exists>s'. handle_mqtt_packet lib callback packet s = Inr s'"
    unfolding handle_mqtt_packet_def
    by (simp add: r byte_at_def Let_def split: option.split sum.split prod.split)
next
  assume "length packet < 2"
  then show "handle_mqtt_packet lib callback packet s = Inr s"
    by (simp add: handle_mqtt_packet_def)
next
  assume "parse_mqtt_remaining_length packet 1 = Inr (remaining_length, pos)
        \<and> (let topic_length = push_bit 8 (unat (packet ! pos)) OR unat (packet ! (pos + 1));
                qos = drop_bit 1 (packet ! 0 AND 0x06)
            in length packet < pos + 2 \<or> length packet < pos + 2 + topic_length
                 \<or> (1 \<le> qos \<and> length packet < pos + 2 + topic_length + 2))"
  then show "parse_mqtt_publish_packet lib packet = Inr None"
    unfolding parse_mqtt_publish_packet_def
    by (auto simp add: byte_at_def Let_def)
next
  assume "parse_mqtt_publish_packet lib packet = Inr None"
  then show "handle_mqtt_packet lib callback packet s = Inr s"
    unfolding handle_mqtt_packet_def
    by (simp add: byte_at_def Let_def)
next
  assume "parse_mqtt_publish_packet lib packet = Inr (Some (topic, payload_bytes))
        \<and> handle_publish_payload lib callback payload_bytes s = Inl err"
  then show "handle_mqtt_packet lib callback packet s = Inr s"
    unfolding handle_mqtt_packet_def
    by (simp add: byte_at_def Let_def)
qed

theorem handle_mqtt_packet_total_witness:
  "handle_mqtt_packet plain_lib recording_callback [] [] = Inr []
   \<and> parse_mqtt_publish_packet plain_lib [0x30, 0x05, 0x00, 0x09, 0x74] = Inr None
   \<and> handle_mqtt_packet plain_lib recording_callback [0x30, 0x05, 0x00, 0x09, 0x74] [] = Inr []
   \<and> handle_publish_payload plain_lib recording_callback (ascii_encode ''{oops'') []
        = Inl JSONDecodeError
   \<and> handle_mqtt_packet plain_lib recording_callback malformed_json_frame [] = Inr []"
proof -
  have short: "length ([] :: byte list) < 2" by simp
  note a = handle_mqtt_packet_total
    [where lib = plain_lib and callback = recording_callback and packet = "[]" and s = "[]",
      THEN conjunct2, THEN conjunct2, THEN conjunct1, rule_format, OF short]
  have overrun: "parse_mqtt_remaining_length [0x30, 0x05, 0x00, 0x09, 0x74] 1 = Inr (5, 2)
    \<and> (let topic_length =
              push_bit 8 (unat ([0x30, 0x05, 0x00, 0x09, 0x74 :: byte] ! 2))
                OR unat ([0x30, 0x05, 0x00, 0x09, 0x74 :: byte] ! (2 + 1));
            qos = drop_bit 1 ([0x30, 0x05, 0x00, 0x09, 0x74 :: byte] ! 0 AND 0x06)
        in length [0x30, 0x05, 0x00, 0x09, 0x74 :: byte] < 2 + 2
             \<or> length [0x30, 0x05, 0x00, 0x09, 0x74 :: byte] < 2 + 2 + topic_length
             \<or> (1 \<le> qos \<and> length [0x30, 0x05, 0x00, 0x09, 0x74 :: byte]
                                < 2 + 2 + topic_length + 2))"
    by code_simp
  note b = handle_mqtt_packet_total
    [where lib = plain_lib and packet = "[0x30, 0x05, 0x00, 0x09, 0x74]",
      THEN conjunct2, THEN conjunct2, THEN conjunct2, THEN conjunct1, rule_format, OF overrun]
  note c = handle_mqtt_packet_total
    [where lib = plain_lib and callback = recording_callback
       and packet = "[0x30, 0x05, 0x00, 0x09, 0x74]" and s = "[]",
      THEN conjunct2, THEN conjunct2, THEN conjunct2, THEN conjunct2, THEN conjunct1,
      rule_format, OF b]
  have raised: "parse_mqtt_publish_packet plain_lib malformed_json_frame =
      Inr (Some (''$aws/things/dev/shadow/get/accepted'', ascii_encode ''{oops''))
    \<and> handle_publish_payload plain_lib recording_callback (ascii_encode ''{oops'') []
        = Inl JSONDecodeError"
    by code_simp
  note d = handle_mqtt_packet_total
    [THEN conjunct2, THEN conjunct2, THEN conjunct2, THEN conjunct2, THEN conjunct2,
      rule_format, OF raised]
  from a b c raised d show ?thesis by (intro conjI) simp_all
qed

section \<open>Pushed documents\<close>

text \<open>
  C4. When the payload of a PUBLISH frame parses to a document whose \<open>state\<close> has no
  \<open>reported\<close> entry, or an empty one, the handler leaves the state of every callback as
  it is (it calls none), and with the coordinator's callback \<open>self.data\<close> does not
  change. And whenever a frame does change \<open>self.data\<close>, the new value is the old one
  merged with the non-empty \<open>reported\<close> dict of the frame's document, and nothing else.
\<close>

theorem desired_only_push_ignored:
  "(parse_mqtt_publish_packet lib packet = Inr (Some (topic, payload_bytes))
    \<and> decode_strict lib payload_bytes = Inr payload_str
    \<and> json_loads lib payload_str = Inr (JObject document)
    \<and> map_of document ''state'' = Some (JObject state)
    \<and> (map_of state ''reported'' = None \<or> map_of state ''reported'' = Some (JObject []))
    \<longrightarrow> handle_mqtt_packet lib callback packet s = Inr s
        \<and> handle_mqtt_packet lib mqtt_callback packet co = Inr co)
   \<and> (handle_mqtt_packet lib mqtt_callback packet co = Inr co' \<and> co' \<noteq> co
    \<longrightarrow> (\<exists>topic payload_bytes payload_str payload_data state reported.
          parse_mqtt_publish_packet lib packet = Inr (Some (topic, payload_bytes))
          \<and> decode_strict lib payload_bytes = Inr payload_str
          \<and> json_loads lib payload_str = Inr payload_data
          \<and> py_get payload_data ''state'' (JObject []) = Inr state
          \<and> py_get state ''reported'' (JObject []) = Inr (JObject reported)
          \<and> reported \<noteq> []
          \<and> co' = co\<lparr>data := Some (dict_merge (data_or_empty co) reported)\<rparr>))"
proof (intro conjI impI)
  assume h: "parse_mqtt_publish_packet lib packet = Inr (Some (topic, payload_bytes))
    \<and> decode_strict lib payload_bytes = Inr payload_str
    \<and> json_loads lib payload_str = Inr (JObject document)
    \<and> map_of document ''state'' = Some (JObject state)
    \<and> (map_of state ''reported'' = None \<or> map_of state ''reported'' = Some (JObject []))"
  have body: "handle_publish_payload lib cb payload_bytes st = Inr st"
    for cb :: "json \<Rightarrow> 't \<Rightarrow> error + 't" and st
    using h by (auto simp add: handle_publish_payload_def)
  show "handle_mqtt_packet lib callback packet s = Inr s"
    using h by (simp add: handle_mqtt_packet_def body byte_at_def Let_def)
  show "handle_mqtt_packet lib mqtt_callback packet co = Inr co"
    using h by (simp add: handle_mqtt_packet_def body byte_at_def Let_def)
next
  assume h: "handle_mqtt_packet lib mqtt_callback packet co = Inr co' \<and> co' \<noteq> co"
  then obtain topic payload_bytes where
    p: "parse_mqtt_publish_packet lib packet = Inr (Some (topic, payload_bytes))"
    and b: "handle_publish_payload lib mqtt_callback payload_bytes co = Inr co'"
    by (auto simp add: handle_mqtt_packet_def Let_def
        split: if_splits sum.splits option.splits prod.splits)
  from b h obtain payload_str payload_data state reported where
    "decode_strict lib payload_bytes = Inr payload_str"
    "json_loads lib payload_str = Inr payload_data"
    "py_get payload_data ''state'' (JObject []) = Inr state"
    "py_get state ''reported'' (JObject []) = Inr reported"
    "truthy reported" "mqtt_callback reported co = Inr co'"
    by (auto simp add: handle_publish_payload_def split: sum.splits if_splits)
  moreover from this obtain entries where "reported = JObject entries"
    "co' = co\<lparr>data := Some (dict_merge (data_or_empty co) entries)\<rparr>"
    by (auto simp add: mqtt_callback_def split: json.splits)
  ultimately show "\<exists>topic payload_bytes payload_str payload_data state reported.
          parse_mqtt_publish_packet lib packet = Inr (Some (topic, payload_bytes))
          \<and> decode_strict lib payload_bytes = Inr payload_str
          \<and> json_loads lib payload_str = Inr payload_data
          \<and> py_get payload_data ''state'' (JObject []) = Inr state
          \<and> py_get state ''reported'' (JObject []) = Inr (JObject reported)
          \<and> reported \<noteq> []
          \<and> co' = co\<lparr>data := Some (dict_merge (data_or_empty co) reported)\<rparr>"
    using p by auto
qed

theorem desired_only_push_ignored_witness:
  "handle_mqtt_packet plain_lib recording_callback desired_only_frame [] = Inr []
   \<and> handle_mqtt_packet plain_lib mqtt_callback desired_only_frame sample_coordinator
        = Inr sample_coordinator
   \<and> (\<exists>reported. reported \<noteq> []
        \<and> handle_mqtt_packet plain_lib mqtt_callback reported_frame sample_coordinator
            = Inr (sample_coordinator
                \<lparr>data := Some (dict_merge (data_or_empty sample_coordinator) reported)\<rparr>))"
proof -
  have h: "parse_mqtt_publish_packet plain_lib desired_only_frame =
        Inr (Some (''$aws/things/dev/shadow/update/accepted'',
                   ascii_encode (plain_dumps desired_only_document)))
    \<and> decode_strict plain_lib (ascii_encode (plain_dumps desired_only_document))
        = Inr (plain_dumps desired_only_document)
    \<and> json_loads plain_lib (plain_dumps desired_only_document)
        = Inr (JObject [(''state'', JObject [(''desired'', JObject [(''SetTemp'', JInt 6)])])])
    \<and> map_of [(''state'', JObject [(''desired'', JObject [(''SetTemp'', JInt 6)])])] ''state''
        = Some (JObject [(''desired'', JObject [(''SetTemp'', JInt 6)])])
    \<and> (map_of [(''desired'', JObject [(''SetTemp'', JInt 6)])] ''reported'' = None
        \<or> map_of [(''desired'', JObject [(''SetTemp'', JInt 6)])] ''reported''
            = Some (JObject []))"
    by code_simp
  note ignored = desired_only_push_ignored [THEN conjunct1, rule_format, OF h]
  have g: "handle_mqtt_packet plain_lib mqtt_callback reported_frame sample_coordinator
        = Inr (sample_coordinator
            \<lparr>data := Some [(''x'', JInt 1), (''y'', JInt 2), (''SetTemp'', JInt 6)]\<rparr>)
     \<and> sample_coordinator
          \<lparr>data := Some [(''x'', JInt 1), (''y'', JInt 2), (''SetTemp'', JInt 6)]\<rparr>
          \<noteq> sample_coordinator"
    by code_simp
  from desired_only_push_ignored [THEN conjunct2, rule_format, OF g]
  obtain reported where "reported \<noteq> []"
    "sample_coordinator\<lparr>data := Some [(''x'', JInt 1), (''y'', JInt 2), (''SetTemp'', JInt 6)]\<rparr>
      = sample_coordinator
          \<lparr>data := Some (dict_merge (data_or_empty sample_coordinator) reported)\<rparr>"
    by blast
  with g have "\<exists>reported. reported \<noteq> []
        \<and> handle_mqtt_packet plain_lib mqtt_callback reported_frame sample_coordinator
            = Inr (sample_coordinator
                \<lparr>data := Some (dict_merge (data_or_empty sample_coordinator) reported)\<rparr>)"
    by auto
  with ignored [where callback = recording_callback and s = "[]" and co = sample_coordinator]
  show ?thesis by blast
qed

end
